theory Spec2Isabelle
  imports Main "HOL-Library.Word"
begin

unbundle bit_operations_syntax

section \<open>Common types\<close>

type_synonym byte = "8 word"

text \<open>
  Modelled from the spec: the error type of package dlms (its declaration is not among the
  sources). It is a single tagged error: a kind and a message. Only the kinds the sources
  name are constructors of their own. An error value that is not a dlms error (made by
  \<^verbatim>\<open>errors.New\<close> or \<^verbatim>\<open>fmt.Errorf\<close>, or coming from the transport) is a \<open>GoError\<close>.
\<close>

datatype ErrorCode =
    ErrorInvalidParameter
  | ErrorInvalidResponse
  | ErrorSetRejected
  | ErrorSetPartial
  | ErrorCodeOther nat

datatype error = DlmsError ErrorCode string | GoError string

fun NewError :: "ErrorCode \<Rightarrow> string \<Rightarrow> error" where
  "NewError code msg = DlmsError code msg"

text \<open>\<^verbatim>\<open>errors.As(err, &dlmsError)\<close> followed by \<^verbatim>\<open>dlmsError.Code()\<close>.\<close>

fun Code :: "error \<Rightarrow> ErrorCode option" where
  "Code (DlmsError c m) = Some c"
| "Code (GoError m) = None"

text \<open>The text \<^verbatim>\<open>%v\<close> prints for an error: its message.\<close>

fun Error_string :: "error \<Rightarrow> string" where
  "Error_string (DlmsError c m) = m"
| "Error_string (GoError m) = m"

section \<open>A-XDR values (axdr.go)\<close>

type_synonym dataTag = int

definition TagNull :: dataTag where "TagNull = 0"
definition TagArray :: dataTag where "TagArray = 1"
definition TagStructure :: dataTag where "TagStructure = 2"
definition TagBoolean :: dataTag where "TagBoolean = 3"
definition TagBitString :: dataTag where "TagBitString = 4"
definition TagDoubleLong :: dataTag where "TagDoubleLong = 5"
definition TagDoubleLongUnsigned :: dataTag where "TagDoubleLongUnsigned = 6"
definition TagFloatingPoint :: dataTag where "TagFloatingPoint = 7"
definition TagOctetString :: dataTag where "TagOctetString = 9"
definition TagVisibleString :: dataTag where "TagVisibleString = 10"
definition TagUTF8String :: dataTag where "TagUTF8String = 12"
definition TagBCD :: dataTag where "TagBCD = 13"
definition TagInteger :: dataTag where "TagInteger = 15"
definition TagLong :: dataTag where "TagLong = 16"
definition TagUnsigned :: dataTag where "TagUnsigned = 17"
definition TagLongUnsigned :: dataTag where "TagLongUnsigned = 18"
definition TagCompactArray :: dataTag where "TagCompactArray = 19"
definition TagLong64 :: dataTag where "TagLong64 = 20"
definition TagLong64Unsigned :: dataTag where "TagLong64Unsigned = 21"
definition TagEnum :: dataTag where "TagEnum = 22"
definition TagFloat32 :: dataTag where "TagFloat32 = 23"
definition TagFloat64 :: dataTag where "TagFloat64 = 24"
definition TagDateTime :: dataTag where "TagDateTime = 25"
definition TagDate :: dataTag where "TagDate = 26"
definition TagTime :: dataTag where "TagTime = 27"
definition TagDontCare :: dataTag where "TagDontCare = 255"

text \<open>
  A \<^verbatim>\<open>time.Time\<close>, as an instant (nanoseconds since the epoch) and the offset of its zone.
\<close>

datatype Time = Time int int

text \<open>
  The field \<^verbatim>\<open>Value\<close> is an \<^verbatim>\<open>interface{}\<close>: nil, or a value of some dynamic type. The
  dynamic types \<^verbatim>\<open>Encode\<close> asserts have a constructor each (a float is given by its
  bits, an \<^verbatim>\<open>int\<close> has 64 bits); \<open>VOther\<close> is a value of any other type, given by the
  name of the type. \<^verbatim>\<open>rawValue\<close> and \<^verbatim>\<open>raw\<close> are the two buffers \<^verbatim>\<open>Encode\<close> fills.
\<close>

datatype Any =
    VNil
  | VSlice "DlmsData list"
  | VBool bool
  | VString string
  | VInt "64 word"
  | VUint32 "32 word"
  | VFloat32 "32 word"
  | VInt8 "8 word"
  | VInt16 "16 word"
  | VUint8 "8 word"
  | VUint16 "16 word"
  | VInt64 "64 word"
  | VUint64 "64 word"
  | VFloat64 "64 word"
  | VTime Time
  | VOther string
and DlmsData = DlmsData (Tag: dataTag) (Value: Any) (rawValue: "byte list") (raw: "byte list")

text \<open>
  A function either returns or panics. A panic carries a string, an error, or
  \<^verbatim>\<open>errDataType\<close>, the error \<^verbatim>\<open>Encode\<close> makes with \<^verbatim>\<open>fmt.Errorf\<close> from the value and its tag.
\<close>

datatype panic = PanicString string | PanicError error | PanicErrDataType Any dataTag

datatype 'a go = Return 'a | Panic panic

text \<open>
  The encoders of the payloads (\<^verbatim>\<open>EncodeArray\<close>, \<^verbatim>\<open>EncodeLength\<close>, ...) and \<^verbatim>\<open>time.Parse\<close>
  are not among the sources: \<^verbatim>\<open>Encode\<close> takes them as a parameter. Each returns bytes and
  an error, as in Go; \<^verbatim>\<open>Encode\<close> drops the error of some of them.
\<close>

record Encoders =
  EncodeArray :: "DlmsData list \<Rightarrow> byte list \<times> error option"
  EncodeLength :: "nat \<Rightarrow> byte list \<times> error option"
  EncodeBoolean :: "bool \<Rightarrow> byte list \<times> error option"
  EncodeBitString :: "string \<Rightarrow> byte list \<times> error option"
  EncodeDoubleLong :: "64 word \<Rightarrow> byte list \<times> error option"
  EncodeDoubleLongUnsigned :: "32 word \<Rightarrow> byte list \<times> error option"
  EncodeFloat32 :: "32 word \<Rightarrow> byte list \<times> error option"
  EncodeOctetString :: "string \<Rightarrow> byte list \<times> error option"
  EncodeBCD :: "8 word \<Rightarrow> byte list \<times> error option"
  EncodeInteger :: "8 word \<Rightarrow> byte list \<times> error option"
  EncodeLong :: "16 word \<Rightarrow> byte list \<times> error option"
  EncodeUnsigned :: "8 word \<Rightarrow> byte list \<times> error option"
  EncodeLongUnsigned :: "16 word \<Rightarrow> byte list \<times> error option"
  EncodeLong64 :: "64 word \<Rightarrow> byte list \<times> error option"
  EncodeLong64Unsigned :: "64 word \<Rightarrow> byte list \<times> error option"
  EncodeEnum :: "8 word \<Rightarrow> byte list \<times> error option"
  EncodeFloat64 :: "64 word \<Rightarrow> byte list \<times> error option"
  EncodeDateTime :: "Time \<Rightarrow> byte list \<times> error option"
  EncodeDate :: "Time \<Rightarrow> byte list \<times> error option"
  EncodeTime :: "Time \<Rightarrow> byte list \<times> error option"
  time_Parse :: "string \<Rightarrow> string \<Rightarrow> Time \<times> error option"

definition errDataType :: "DlmsData \<Rightarrow> panic" where
  "errDataType d = PanicErrDataType (Value d) (Tag d)"

definition set_rawValue :: "DlmsData \<Rightarrow> byte list \<Rightarrow> DlmsData" where
  "set_rawValue d v = DlmsData (Tag d) (Value d) v (raw d)"

text \<open>
  The statements after the \<^verbatim>\<open>switch\<close>: the buffer \<^verbatim>\<open>raw\<close> is reset and receives the tag as
  one byte, the length when there is one, and \<^verbatim>\<open>rawValue\<close>.
\<close>

definition writeRaw :: "DlmsData \<Rightarrow> byte list \<Rightarrow> (byte list \<times> DlmsData) go" where
  "writeRaw d dataLength =
     (let out = [word_of_int (Tag d)]
                @ (if length dataLength > 0 then dataLength else [])
                @ rawValue d
      in Return (out, DlmsData (Tag d) (Value d) (rawValue d) out))"

text \<open>An encoder whose error is dropped (\<^verbatim>\<open>rawValue, _ := ...\<close>).\<close>

definition dropError :: "DlmsData \<Rightarrow> byte list \<times> error option \<Rightarrow> (byte list \<times> DlmsData) go" where
  "dropError d r = writeRaw (set_rawValue d (fst r)) []"

text \<open>An encoder whose error panics, for a payload without a length.\<close>

definition panicOnError :: "DlmsData \<Rightarrow> byte list \<times> error option \<Rightarrow> (byte list \<times> DlmsData) go" where
  "panicOnError d r =
     (case snd r of
        Some errEncoding \<Rightarrow> Panic (PanicError errEncoding)
      | None \<Rightarrow> writeRaw (set_rawValue d (fst r)) [])"

text \<open>The three string cases: the payload, then the length of the payload in bytes.\<close>

definition encodeString :: "Encoders \<Rightarrow> DlmsData \<Rightarrow> (byte list \<times> DlmsData) go" where
  "encodeString enc d =
     (case Value d of
        VString data \<Rightarrow>
          (case EncodeOctetString enc data of
             (rv, Some errEncoding) \<Rightarrow> Panic (PanicError errEncoding)
           | (rv, None) \<Rightarrow>
               (case EncodeLength enc (length rv) of
                  (dl, Some errLength) \<Rightarrow> Panic (PanicError errLength)
                | (dl, None) \<Rightarrow> writeRaw (set_rawValue d rv) dl))
      | _ \<Rightarrow> Panic (errDataType d))"

text \<open>The two cases of a sequence: the elements, then their number.\<close>

definition encodeSequence :: "Encoders \<Rightarrow> DlmsData \<Rightarrow> (byte list \<times> DlmsData) go" where
  "encodeSequence enc d =
     (case Value d of
        VSlice data \<Rightarrow>
          (let rawValue = fst (EncodeArray enc data)
           in case EncodeLength enc (length data) of
                (dl, Some errLength) \<Rightarrow> Panic (PanicError errLength)
              | (dl, None) \<Rightarrow> writeRaw (set_rawValue d rawValue) dl)
      | _ \<Rightarrow> Panic (errDataType d))"

text \<open>
  The three cases of a date or a time: a \<^verbatim>\<open>time.Time\<close>, or a string parsed with the layout
  of the case (the error of \<^verbatim>\<open>time.Parse\<close> is dropped).
\<close>

definition encodeTimeValue ::
  "Encoders \<Rightarrow> (Time \<Rightarrow> byte list \<times> error option) \<Rightarrow> string \<Rightarrow> DlmsData
     \<Rightarrow> (byte list \<times> DlmsData) go" where
  "encodeTimeValue enc encoder layout d =
     (case Value d of
        VTime data \<Rightarrow> panicOnError d (encoder data)
      | VString v \<Rightarrow> panicOnError d (encoder (fst (time_Parse enc layout v)))
      | _ \<Rightarrow> Panic (errDataType d))"

text \<open>
  \<^verbatim>\<open>Encode\<close> returns the bytes and, the receiver being a pointer, the value with its two
  buffers filled. The \<^verbatim>\<open>switch\<close> has no default: a tag that is none of its cases goes
  straight to the statements after it.
\<close>

definition Encode :: "Encoders \<Rightarrow> DlmsData \<Rightarrow> (byte list \<times> DlmsData) go" where
  "Encode enc d =
     (if Value d = VNil then Panic (PanicString ''Value to encode cannot be nil'')
      else if Tag d = TagNull then writeRaw (set_rawValue d [0]) []
      else if Tag d = TagArray then encodeSequence enc d
      else if Tag d = TagStructure then encodeSequence enc d
      else if Tag d = TagBoolean then
        (case Value d of VBool data \<Rightarrow> dropError d (EncodeBoolean enc data)
                       | _ \<Rightarrow> Panic (errDataType d))
      else if Tag d = TagBitString then
        (case Value d of
           VString data \<Rightarrow>
             (case EncodeBitString enc data of
                (rv, Some errEncoding) \<Rightarrow> Panic (PanicError errEncoding)
              | (rv, None) \<Rightarrow>
                  (case EncodeLength enc (length data) of
                     (dl, Some errLength) \<Rightarrow> Panic (PanicError errLength)
                   | (dl, None) \<Rightarrow> writeRaw (set_rawValue d rv) dl))
         | _ \<Rightarrow> Panic (errDataType d))
      else if Tag d = TagDoubleLong then
        (case Value d of VInt data \<Rightarrow> dropError d (EncodeDoubleLong enc data)
                       | _ \<Rightarrow> Panic (errDataType d))
      else if Tag d = TagDoubleLongUnsigned then
        (case Value d of VUint32 data \<Rightarrow> dropError d (EncodeDoubleLongUnsigned enc data)
                       | _ \<Rightarrow> Panic (errDataType d))
      else if Tag d = TagFloatingPoint then
        (case Value d of VFloat32 data \<Rightarrow> dropError d (EncodeFloat32 enc data)
                       | _ \<Rightarrow> Panic (errDataType d))
      else if Tag d = TagOctetString then encodeString enc d
      else if Tag d = TagVisibleString then encodeString enc d
      else if Tag d = TagUTF8String then encodeString enc d
      else if Tag d = TagBCD then
        (case Value d of VInt8 data \<Rightarrow> dropError d (EncodeBCD enc data)
                       | _ \<Rightarrow> Panic (errDataType d))
      else if Tag d = TagInteger then
        (case Value d of VInt8 data \<Rightarrow> dropError d (EncodeInteger enc data)
                       | _ \<Rightarrow> Panic (errDataType d))
      else if Tag d = TagLong then
        (case Value d of VInt16 data \<Rightarrow> dropError d (EncodeLong enc data)
                       | _ \<Rightarrow> Panic (errDataType d))
      else if Tag d = TagUnsigned then
        (case Value d of VUint8 data \<Rightarrow> dropError d (EncodeUnsigned enc data)
                       | _ \<Rightarrow> Panic (errDataType d))
      else if Tag d = TagLongUnsigned then
        (case Value d of VUint16 data \<Rightarrow> dropError d (EncodeLongUnsigned enc data)
                       | _ \<Rightarrow> Panic (errDataType d))
      else if Tag d = TagCompactArray then Panic (PanicString ''Not yet implemented'')
      else if Tag d = TagLong64 then
        (case Value d of VInt64 data \<Rightarrow> dropError d (EncodeLong64 enc data)
                       | _ \<Rightarrow> Panic (errDataType d))
      else if Tag d = TagLong64Unsigned then
        (case Value d of VUint64 data \<Rightarrow> dropError d (EncodeLong64Unsigned enc data)
                       | _ \<Rightarrow> Panic (errDataType d))
      else if Tag d = TagEnum then
        (case Value d of VUint8 data \<Rightarrow> dropError d (EncodeEnum enc data)
                       | _ \<Rightarrow> Panic (errDataType d))
      else if Tag d = TagFloat32 then
        (case Value d of VFloat32 data \<Rightarrow> dropError d (EncodeFloat32 enc data)
                       | _ \<Rightarrow> Panic (errDataType d))
      else if Tag d = TagFloat64 then
        (case Value d of VFloat64 data \<Rightarrow> dropError d (EncodeFloat64 enc data)
                       | _ \<Rightarrow> Panic (errDataType d))
      else if Tag d = TagDateTime then
        encodeTimeValue enc (EncodeDateTime enc) ''2006-01-02 15:04:05'' d
      else if Tag d = TagDate then
        encodeTimeValue enc (EncodeDate enc) ''2006-01-02'' d
      else if Tag d = TagTime then
        encodeTimeValue enc (EncodeTime enc) ''15:04:05'' d
      else if Tag d = TagDontCare then writeRaw (set_rawValue d [0]) []
      else writeRaw d [])"

text \<open>
  The dynamic type of a value, and the types the case of a tag asserts
  (\<^verbatim>\<open>d.Value.(bool)\<close>, ...): the cases of \<^verbatim>\<open>TagNull\<close>, \<^verbatim>\<open>TagDontCare\<close> and
  \<^verbatim>\<open>TagCompactArray\<close> assert none, and neither does a tag outside the \<^verbatim>\<open>switch\<close>.
\<close>

datatype GoType = NilType | SliceType | BoolType | StringType | IntType | Uint32Type
  | Float32Type | Int8Type | Int16Type | Uint8Type | Uint16Type | Int64Type | Uint64Type
  | Float64Type | TimeType | OtherType string

fun typeOf :: "Any \<Rightarrow> GoType" where
  "typeOf VNil = NilType"
| "typeOf (VSlice _) = SliceType"
| "typeOf (VBool _) = BoolType"
| "typeOf (VString _) = StringType"
| "typeOf (VInt _) = IntType"
| "typeOf (VUint32 _) = Uint32Type"
| "typeOf (VFloat32 _) = Float32Type"
| "typeOf (VInt8 _) = Int8Type"
| "typeOf (VInt16 _) = Int16Type"
| "typeOf (VUint8 _) = Uint8Type"
| "typeOf (VUint16 _) = Uint16Type"
| "typeOf (VInt64 _) = Int64Type"
| "typeOf (VUint64 _) = Uint64Type"
| "typeOf (VFloat64 _) = Float64Type"
| "typeOf (VTime _) = TimeType"
| "typeOf (VOther n) = OtherType n"

definition assertedTypes :: "dataTag \<Rightarrow> GoType list option" where
  "assertedTypes t =
     (if t = TagArray \<or> t = TagStructure then Some [SliceType]
      else if t = TagBoolean then Some [BoolType]
      else if t = TagBitString \<or> t = TagOctetString \<or> t = TagVisibleString \<or> t = TagUTF8String
        then Some [StringType]
      else if t = TagDoubleLong then Some [IntType]
      else if t = TagDoubleLongUnsigned then Some [Uint32Type]
      else if t = TagFloatingPoint \<or> t = TagFloat32 then Some [Float32Type]
      else if t = TagBCD \<or> t = TagInteger then Some [Int8Type]
      else if t = TagLong then Some [Int16Type]
      else if t = TagUnsigned \<or> t = TagEnum then Some [Uint8Type]
      else if t = TagLongUnsigned then Some [Uint16Type]
      else if t = TagLong64 then Some [Int64Type]
      else if t = TagLong64Unsigned then Some [Uint64Type]
      else if t = TagFloat64 then Some [Float64Type]
      else if t = TagDateTime \<or> t = TagDate \<or> t = TagTime then Some [TimeType, StringType]
      else None)"

text \<open>The tags that are a case of the \<^verbatim>\<open>switch\<close>.\<close>

definition switchTags :: "dataTag set" where
  "switchTags = {TagNull, TagArray, TagStructure, TagBoolean, TagBitString, TagDoubleLong,
     TagDoubleLongUnsigned, TagFloatingPoint, TagOctetString, TagVisibleString, TagUTF8String,
     TagBCD, TagInteger, TagLong, TagUnsigned, TagLongUnsigned, TagCompactArray, TagLong64,
     TagLong64Unsigned, TagEnum, TagFloat32, TagFloat64, TagDateTime, TagDate, TagTime,
     TagDontCare}"

section \<open>Association settings (package dlms)\<close>

text \<open>
  Modelled from the spec: the settings declarations are not among the sources. The fields
  are the ones \<^verbatim>\<open>aarq.go\<close> reads; the invocation counter is a \<^verbatim>\<open>uint32\<close>, the maximum PDU
  size an integer that \<^verbatim>\<open>getInitiateRequest\<close> converts to \<^verbatim>\<open>uint16\<close>. The security byte is a
  bit field (bit 4 authentication, bit 5 encryption), the authentication mode is the last
  arc of the mechanism OID (0 none, 1 low).
\<close>

record Ciphering =
  Security :: byte
  SystemTitle :: "byte list"
  UnicastKey :: "byte list"
  AuthenticationKey :: "byte list"
  DedicatedKey :: "byte list"
  InvocationCounter :: "32 word"

record Settings =
  Authentication :: byte
  Password :: "byte list"
  Ciphering :: Ciphering
  MaxPduSize :: int

text \<open>
  Modelled from the spec: the values of the security byte and of the authentication mode,
  declared outside the sources.
\<close>

definition SecurityNone :: byte where "SecurityNone = 0"
definition SecurityAuthentication :: byte where "SecurityAuthentication = 0x10"
definition SecurityEncryption :: byte where "SecurityEncryption = 0x20"

definition AuthenticationNone :: byte where "AuthenticationNone = 0"
definition AuthenticationLow :: byte where "AuthenticationLow = 1"

text \<open>
  Modelled from the spec: the APDU tags of the initiate-request (\<open>0x01\<close>) and of its
  ciphered form (\<open>0x21\<close>), declared outside the sources.
\<close>

definition TagInitiateRequest :: byte where "TagInitiateRequest = 0x01"
definition TagGloInitiateRequest :: byte where "TagGloInitiateRequest = 0x21"

text \<open>
  The configuration handed to \<^verbatim>\<open>CipherData\<close>. The cipher itself (AES-GCM) is not among the
  sources: every function that calls it takes it as the parameter \<open>CipherData\<close>.
\<close>

datatype Cipher = Cipher
  (Tag: byte) (Security: byte) (SystemTitle: "byte list")
  (Key: "byte list") (AuthKey: "byte list") (FrameCounter: "32 word")

section \<open>AARQ encoding (aarq.go)\<close>

definition PduTypeApplicationContextName :: byte where "PduTypeApplicationContextName = 1"
definition PduTypeCallingAPTitle :: byte where "PduTypeCallingAPTitle = 6"
definition PduTypeSenderAcseRequirements :: byte where "PduTypeSenderAcseRequirements = 10"
definition PduTypeMechanismName :: byte where "PduTypeMechanismName = 11"
definition PduTypeCallingAuthenticationValue :: byte where "PduTypeCallingAuthenticationValue = 12"
definition PduTypeUserInformation :: byte where "PduTypeUserInformation = 30"

definition BERTypeContext :: byte where "BERTypeContext = 0x80"
definition BERTypeApplication :: byte where "BERTypeApplication = 0x40"
definition BERTypeConstructed :: byte where "BERTypeConstructed = 0x20"

definition ApplicationContextLNNoCiphering :: byte where "ApplicationContextLNNoCiphering = 1"
definition ApplicationContextLNCiphering :: byte where "ApplicationContextLNCiphering = 3"

definition generateApplicationContextName :: "Settings \<Rightarrow> byte list" where
  "generateApplicationContextName settings =
     [BERTypeContext OR BERTypeConstructed OR PduTypeApplicationContextName]
     @ [0x09, 0x06, 0x07, 0x60, 0x85, 0x74, 0x05, 0x08, 0x01]
     @ (if Ciphering.Security (Ciphering settings) = SecurityNone
           \<and> length (Ciphering.SystemTitle (Ciphering settings)) = 0
        then [ApplicationContextLNNoCiphering]
        else [ApplicationContextLNCiphering])
     @ (if length (Ciphering.SystemTitle (Ciphering settings)) > 0
        then [BERTypeContext OR BERTypeConstructed OR PduTypeCallingAPTitle]
             @ [0x0A, 0x04, 0x08]
             @ Ciphering.SystemTitle (Ciphering settings)
        else [])"

text \<open>
  \<^verbatim>\<open>generateAuthentication\<close> returns both the bytes and the error: with an empty password
  it sets the error and still writes the field.
\<close>

definition generateAuthentication :: "Settings \<Rightarrow> byte list \<times> error option" where
  "generateAuthentication settings =
     (if Authentication settings \<noteq> AuthenticationNone then
        ([BERTypeContext OR PduTypeSenderAcseRequirements]
         @ [0x02, 0x07, 0x80]
         @ [BERTypeContext OR PduTypeMechanismName]
         @ [0x07, 0x60, 0x85, 0x74, 0x05, 0x08, 0x02]
         @ [Authentication settings]
         @ [BERTypeContext OR BERTypeConstructed OR PduTypeCallingAuthenticationValue]
         @ [of_nat (2 + length (Password settings))]
         @ [0x80]
         @ [of_nat (length (Password settings))]
         @ Password settings,
         if length (Password settings) = 0
         then Some (GoError ''password is required for authentication'')
         else None)
      else ([], None))"

definition getInitiateRequest :: "Settings \<Rightarrow> byte list" where
  "getInitiateRequest settings =
     [TagInitiateRequest]
     @ (if Ciphering.Security (Ciphering settings) = SecurityNone
           \<or> length (DedicatedKey (Ciphering settings)) = 0
        then [0x00]
        else [0x01, of_nat (length (DedicatedKey (Ciphering settings)))]
             @ DedicatedKey (Ciphering settings))
     @ [0x00, 0x00, 0x06, 0x5F, 0x1F, 0x04, 0x00, 0x00, 0x18, 0x1F]
     @ (let maxPduSize = (word_of_int (MaxPduSize settings) :: 16 word)
        in [ucast (drop_bit 8 maxPduSize), ucast maxPduSize])"

text \<open>
  The settings are passed by pointer: the function returns them updated. The counter is
  incremented before \<^verbatim>\<open>CipherData\<close> is called, so it is incremented on the error path too.
\<close>

definition generateUserInformation ::
  "(Cipher \<Rightarrow> byte list \<Rightarrow> error + byte list) \<Rightarrow> Settings \<Rightarrow> (error + byte list) \<times> Settings" where
  "generateUserInformation CipherData settings =
     (let buf = [BERTypeContext OR BERTypeConstructed OR PduTypeUserInformation];
          initiateRequest = getInitiateRequest settings;
          finish = (\<lambda>initiateRequest.
             buf @ [of_nat (2 + length initiateRequest)] @ [0x04]
                 @ [of_nat (length initiateRequest)] @ initiateRequest)
      in if Ciphering.Security (Ciphering settings) \<noteq> SecurityNone then
           let cfg = Cipher TagGloInitiateRequest
                       (Ciphering.Security (Ciphering settings))
                       (Ciphering.SystemTitle (Ciphering settings))
                       (UnicastKey (Ciphering settings))
                       (AuthenticationKey (Ciphering settings))
                       (InvocationCounter (Ciphering settings));
               settings' = settings\<lparr>Ciphering := (Ciphering settings)
                             \<lparr>InvocationCounter := InvocationCounter (Ciphering settings) + 1\<rparr>\<rparr>
           in (case CipherData cfg initiateRequest of
                 Inl err \<Rightarrow> (Inl err, settings')
               | Inr ciphered \<Rightarrow> (Inr (finish ciphered), settings'))
         else (Inr (finish initiateRequest), settings))"

definition EncodeAARQ ::
  "(Cipher \<Rightarrow> byte list \<Rightarrow> error + byte list) \<Rightarrow> Settings \<Rightarrow> (error + byte list) \<times> Settings" where
  "EncodeAARQ CipherData settings =
     (let buf = [BERTypeApplication OR BERTypeConstructed] @ [0x00]
                @ generateApplicationContextName settings
      in case generateAuthentication settings of
           (auth, Some err) \<Rightarrow> (Inl err, settings)
         | (auth, None) \<Rightarrow>
             (case generateUserInformation CipherData settings of
                (Inl err, settings') \<Rightarrow> (Inl err, settings')
              | (Inr userInfo, settings') \<Rightarrow>
                  (let out = buf @ auth @ userInfo
                   in (Inr (out[1 := of_nat (length out - 2)]), settings'))))"

section \<open>Bulk Set over a struct of elements (dlmsclient, set.go)\<close>

text \<open>
  The loop of \<^verbatim>\<open>SetRequestWithStructOfElements\<close> visits the fields of the struct in order.
  What decides its control flow at a field is: whether \<^verbatim>\<open>getAttributeDescriptor\<close> fails,
  whether it returns no descriptor, whether the field is a nil pointer, and what
  \<^verbatim>\<open>c.setRequest\<close> returns (nil, or an error: \<^verbatim>\<open>setRequest\<close> itself makes errors of the
  kinds InvalidParameter, InvalidResponse and SetRejected, and passes on the errors of the
  transport). The reflection and the transport are not modelled: a field is given by what
  the loop meets there.
\<close>

datatype Field =
    DescriptorError error
  | NoDescriptor
  | NilPointer
  | SetField "error option"

datatype Data = NotAStruct | Struct "Field list"

text \<open>The text \<^verbatim>\<open>%v\<close> prints for a value of type \<^verbatim>\<open>error\<close>.\<close>

fun Sprint_error :: "error option \<Rightarrow> string" where
  "Sprint_error None = ''<nil>''"
| "Sprint_error (Some err) = Error_string err"

text \<open>
  The loop, with its three variables \<^verbatim>\<open>errSet\<close>, \<^verbatim>\<open>isSomethingDone\<close> and
  \<^verbatim>\<open>isSomethingFailed\<close>; the first equation is the code after the loop.
\<close>

fun setFields :: "bool \<Rightarrow> Field list \<Rightarrow> error option \<Rightarrow> bool \<Rightarrow> bool \<Rightarrow> error option" where
  "setFields continueOnSetRejected [] errSet isSomethingDone isSomethingFailed =
     (if isSomethingFailed \<and> isSomethingDone
      then Some (NewError ErrorSetPartial (''partial set: '' @ Sprint_error errSet))
      else errSet)"
| "setFields continueOnSetRejected (DescriptorError err # fs) errSet isSomethingDone isSomethingFailed =
     Some err"
| "setFields continueOnSetRejected (NoDescriptor # fs) errSet isSomethingDone isSomethingFailed =
     setFields continueOnSetRejected fs errSet isSomethingDone isSomethingFailed"
| "setFields continueOnSetRejected (NilPointer # fs) errSet isSomethingDone isSomethingFailed =
     setFields continueOnSetRejected fs errSet isSomethingDone isSomethingFailed"
| "setFields continueOnSetRejected (SetField (Some err) # fs) errSet isSomethingDone isSomethingFailed =
     (if Code err = Some ErrorSetRejected \<and> continueOnSetRejected
      then setFields continueOnSetRejected fs (Some err) isSomethingDone True
      else if isSomethingDone
      then Some (NewError ErrorSetPartial (''partial set: '' @ Sprint_error (Some err)))
      else Some err)"
| "setFields continueOnSetRejected (SetField None # fs) errSet isSomethingDone isSomethingFailed =
     setFields continueOnSetRejected fs errSet True isSomethingFailed"

definition SetRequestWithStructOfElements :: "Data \<Rightarrow> bool \<Rightarrow> error option" where
  "SetRequestWithStructOfElements data continueOnSetRejected =
     (case data of
        NotAStruct \<Rightarrow> Some (NewError ErrorInvalidParameter ''data must be a struct'')
      | Struct fs \<Rightarrow> setFields continueOnSetRejected fs None False False)"

section \<open>Attribute descriptors (attributeDescriptor.go)\<close>

text \<open>
  Modelled from the spec: the type \<^verbatim>\<open>Obis\<close> and its method \<^verbatim>\<open>Bytes\<close> are not among the
  sources. An OBIS code is a six-byte identifier A.B.C.D.E.F whose binary form is exactly
  these six bytes.
\<close>

datatype Obis = Obis byte byte byte byte byte byte

fun Bytes :: "Obis \<Rightarrow> byte list" where
  "Bytes (Obis a b c d e f) = [a, b, c, d, e, f]"

record AttributeDescriptor =
  ClassID :: "16 word"
  InstanceID :: Obis
  AttributeID :: "8 word"

text \<open>
  \<^verbatim>\<open>AttributeID\<close> is an \<^verbatim>\<open>int8\<close>; \<^verbatim>\<open>byte(ad.AttributeID)\<close> keeps its eight bits. The error
  result of \<^verbatim>\<open>Encode\<close> is never set.
\<close>

definition AttributeDescriptor_Encode :: "AttributeDescriptor \<Rightarrow> error + byte list" where
  "AttributeDescriptor_Encode ad =
     (let c = [ucast (drop_bit 8 (ClassID ad)), ucast (ClassID ad)] :: byte list;
          output = [] @ c;
          output = output @ Bytes (InstanceID ad);
          output = output @ [AttributeID ad]
      in Inr output)"

text \<open>
  Modelled from the spec: \<^verbatim>\<open>axdr.DecodeLongUnsigned\<close> and \<^verbatim>\<open>DecodeObis\<close> are not among the
  sources. The first reads a big-endian \<^verbatim>\<open>u16\<close> from the front of the buffer, the second
  the six bytes of an OBIS code; both fail on a buffer that is too short and advance the
  buffer otherwise.
\<close>

fun DecodeLongUnsigned :: "byte list \<Rightarrow> (error + 16 word) \<times> byte list" where
  "DecodeLongUnsigned (hi # lo # src) = (Inr (push_bit 8 (ucast hi) OR ucast lo), src)"
| "DecodeLongUnsigned src = (Inl (GoError ''not enough byte length provided''), src)"

fun DecodeObis :: "byte list \<Rightarrow> (error + Obis) \<times> byte list" where
  "DecodeObis (a # b # c # d # e # f # src) = (Inr (Obis a b c d e f), src)"
| "DecodeObis src = (Inl (GoError ''obis must be 6 bytes''), src)"

text \<open>
  The function works on a copy \<^verbatim>\<open>src\<close> of the caller's buffer \<^verbatim>\<open>*ori\<close> and assigns
  \<^verbatim>\<open>*ori\<close> only in its last statement; it returns the result and the caller's buffer.
  Reading \<^verbatim>\<open>src[0]\<close> from an empty slice panics.
\<close>

definition DecodeAttributeDescriptor ::
  "byte list \<Rightarrow> ((error + AttributeDescriptor) \<times> byte list) go" where
  "DecodeAttributeDescriptor ori =
     (let src = ori
      in if length src < 9
         then Return (Inl (GoError ''byte slice length must be at least 9 bytes''), ori)
         else (case DecodeLongUnsigned src of
                 (Inl err, src) \<Rightarrow> Return (Inl err, ori)
               | (Inr classID, src) \<Rightarrow>
                   (case DecodeObis src of
                      (Inl err, src) \<Rightarrow> Return (Inl err, ori)
                    | (Inr instanceID, src) \<Rightarrow>
                        (case src of
                           [] \<Rightarrow> Panic (PanicString ''index out of range'')
                         | attributeID # src \<Rightarrow>
                             Return (Inr \<lparr>ClassID = classID, InstanceID = instanceID,
                                          AttributeID = attributeID\<rparr>,
                                     drop (length ori - length src) ori)))))"

section \<open>A-XDR decoding and the selective access descriptor\<close>

text \<open>
  Of \<^verbatim>\<open>DecodeSelectiveAccessDescriptor\<close> the sources hold the test only; the function and
  the decoder of package axdr it calls are missing. Both are taken from the spec.
\<close>

text \<open>
  Modelled from the spec: the kinds of error of the codec, which is not among the sources.
  The spec names no error for a nesting deeper than the bound and none for a selector that
  is neither 1 nor 2: the last two kinds stand for them.
\<close>

datatype CodecError = UnknownTag | Truncated | LengthOverflow | InvalidBoolean
  | InvalidDateTime | NestingTooDeep | InvalidSelector

text \<open>
  Modelled from the spec: the value of a big-endian sequence of bytes, as the length prefix
  and the fixed-width payloads hold it.
\<close>

fun be_nat :: "byte list \<Rightarrow> nat" where
  "be_nat [] = 0"
| "be_nat (b # bs) = unat b * 256 ^ length bs + be_nat bs"

text \<open>
  Modelled from the spec: the decoder of the A-XDR length prefix (\<^verbatim>\<open>axdr.DecodeLength\<close> is
  not among the sources). A byte below \<open>0x80\<close> is the length; otherwise the byte is
  \<open>0x80 | n\<close> with \<open>1 \<le> n \<le> 4\<close>, followed by \<open>n\<close> big-endian bytes that hold the length.
\<close>

definition decode_length :: "byte list \<Rightarrow> CodecError + (nat \<times> byte list)" where
  "decode_length src =
     (case src of
        [] \<Rightarrow> Inl Truncated
      | b # rest \<Rightarrow>
          if b < 0x80 then Inr (unat b, rest)
          else (let n = unat (b AND 0x7F)
                in if n < 1 \<or> 4 < n then Inl LengthOverflow
                   else if length rest < n then Inl Truncated
                   else Inr (be_nat (take n rest), drop n rest)))"

text \<open>
  Modelled from the spec: the width of the payload of the tags that carry no length, from
  the table of tags (the decoder of package axdr is not among the sources).
\<close>

definition fixed_width :: "byte \<Rightarrow> nat option" where
  "fixed_width t =
     (if t = 0 \<or> t = 255 then Some 0
      else if t = 3 \<or> t = 13 \<or> t = 15 \<or> t = 17 \<or> t = 22 then Some 1
      else if t = 16 \<or> t = 18 then Some 2
      else if t = 5 \<or> t = 6 \<or> t = 23 \<or> t = 27 then Some 4
      else if t = 26 then Some 5
      else if t = 20 \<or> t = 21 \<or> t = 24 then Some 8
      else if t = 25 then Some 12
      else None)"

text \<open>
  Modelled from the spec: a decoded value, by the shape of its payload (the type the
  decoder of package axdr returns is not among the sources): a payload of fixed width, a
  bit string with its length in bits, a string of bytes, an array or a structure.
\<close>

datatype Axdr =
    Fixed byte "byte list"
  | Bits nat "byte list"
  | Octets byte "byte list"
  | Seq byte "Axdr list"

text \<open>
  Modelled from the spec: the decoder of one tagged value (\<^verbatim>\<open>Decode\<close> of package axdr is
  not among the sources). It returns the value and the rest of the buffer. ARRAY,
  STRUCTURE, BIT_STRING and the three strings carry a length, which may never exceed the
  remaining buffer; a sequence decodes as many elements as its length says, one level
  deeper, and the nesting is bounded by \<open>depth\<close>. The permitted ranges of the sub-fields of
  dates and times are not given by the spec: the check is the parameter \<open>permitted\<close>.
\<close>

fun decode ::
  "(byte \<Rightarrow> byte list \<Rightarrow> bool) \<Rightarrow> nat \<Rightarrow> byte list \<Rightarrow> CodecError + (Axdr \<times> byte list)"
and decode_elements ::
  "(byte \<Rightarrow> byte list \<Rightarrow> bool) \<Rightarrow> nat \<Rightarrow> nat \<Rightarrow> byte list
     \<Rightarrow> CodecError + (Axdr list \<times> byte list)"
where
  "decode permitted depth [] = Inl Truncated"
| "decode permitted depth (t # src) =
     (if t = 1 \<or> t = 2 then
        (case decode_length src of
           Inl e \<Rightarrow> Inl e
         | Inr (n, body) \<Rightarrow>
             if length body < n then Inl LengthOverflow
             else (case depth of
                     0 \<Rightarrow> Inl NestingTooDeep
                   | Suc d \<Rightarrow>
                       (case decode_elements permitted d n body of
                          Inl e \<Rightarrow> Inl e
                        | Inr (vs, rest) \<Rightarrow> Inr (Seq t vs, rest))))
      else if t = 4 then
        (case decode_length src of
           Inl e \<Rightarrow> Inl e
         | Inr (bits, body) \<Rightarrow>
             if length body < (bits + 7) div 8 then Inl LengthOverflow
             else Inr (Bits bits (take ((bits + 7) div 8) body),
                       drop ((bits + 7) div 8) body))
      else if t = 9 \<or> t = 10 \<or> t = 12 then
        (case decode_length src of
           Inl e \<Rightarrow> Inl e
         | Inr (n, body) \<Rightarrow>
             if length body < n then Inl LengthOverflow
             else Inr (Octets t (take n body), drop n body))
      else
        (case fixed_width t of
           None \<Rightarrow> Inl UnknownTag
         | Some w \<Rightarrow>
             if length src < w then Inl Truncated
             else if t = 3 \<and> take w src \<noteq> [0x00] \<and> take w src \<noteq> [0xFF]
               then Inl InvalidBoolean
             else if (t = 25 \<or> t = 26 \<or> t = 27) \<and> \<not> permitted t (take w src)
               then Inl InvalidDateTime
             else Inr (Fixed t (take w src), drop w src)))"
| "decode_elements permitted depth 0 src = Inr ([], src)"
| "decode_elements permitted depth (Suc k) src =
     (case decode permitted depth src of
        Inl e \<Rightarrow> Inl e
      | Inr (v, rest) \<Rightarrow>
          (case decode_elements permitted depth k rest of
             Inl e \<Rightarrow> Inl e
           | Inr (vs, rest') \<Rightarrow> Inr (v # vs, rest')))"

text \<open>
  Modelled from the spec: \<^verbatim>\<open>DecodeSelectiveAccessDescriptor\<close> is not among the sources. A
  descriptor is the selector (1 range, 2 entry) followed by one A-XDR value, the access
  parameters. Decoding consumes from a cursor and commits only on success: as
  \<^verbatim>\<open>DecodeAttributeDescriptor\<close> does, the function works on a copy of the caller's buffer
  and assigns the buffer in its last statement. The decoder of the value is the parameter
  \<open>Decode\<close>; \<open>decode\<close> above, with the bound 16 of the spec, is the one the spec describes.
\<close>

definition DecodeSelectiveAccessDescriptor ::
  "(byte list \<Rightarrow> CodecError + ('a \<times> byte list)) \<Rightarrow> byte list
     \<Rightarrow> (CodecError + (byte \<times> 'a)) \<times> byte list" where
  "DecodeSelectiveAccessDescriptor Decode ori =
     (let src = ori
      in case src of
           [] \<Rightarrow> (Inl Truncated, ori)
         | selector # src \<Rightarrow>
             if selector \<noteq> 1 \<and> selector \<noteq> 2 then (Inl InvalidSelector, ori)
             else (case Decode src of
                     Inl e \<Rightarrow> (Inl e, ori)
                   | Inr (parameter, src) \<Rightarrow>
                       (Inr (selector, parameter), drop (length ori - length src) ori)))"

text \<open>
  A poisoned length at the front of a buffer: a tag that carries a length, and a length
  prefix that claims more than the bytes that follow it.
\<close>

definition poisoned_length :: "byte list \<Rightarrow> bool" where
  "poisoned_length src =
     (case src of
        [] \<Rightarrow> False
      | t # r \<Rightarrow>
          (t = 1 \<or> t = 2 \<or> t = 4 \<or> t = 9 \<or> t = 10 \<or> t = 12) \<and>
          (case decode_length r of
             Inl e \<Rightarrow> False
           | Inr (n, body) \<Rightarrow> length body < (if t = 4 then (n + 7) div 8 else n)))"

text \<open>
  A poisoned inner length: the value at the front of the buffer has a poisoned length, or
  it is a sequence and one of its elements, the elements before it being well formed, has
  a poisoned inner length.
\<close>

fun poisoned :: "(byte \<Rightarrow> byte list \<Rightarrow> bool) \<Rightarrow> nat \<Rightarrow> byte list \<Rightarrow> bool"
and poisoned_elements ::
  "(byte \<Rightarrow> byte list \<Rightarrow> bool) \<Rightarrow> nat \<Rightarrow> nat \<Rightarrow> byte list \<Rightarrow> bool"
where
  "poisoned permitted depth [] = False"
| "poisoned permitted depth (t # src) =
     (poisoned_length (t # src) \<or>
      ((t = 1 \<or> t = 2) \<and>
       (case decode_length src of
          Inl e \<Rightarrow> False
        | Inr (n, body) \<Rightarrow>
            (case depth of
               0 \<Rightarrow> False
             | Suc d \<Rightarrow> poisoned_elements permitted d n body))))"
| "poisoned_elements permitted depth 0 src = False"
| "poisoned_elements permitted depth (Suc k) src =
     (poisoned permitted depth src \<or>
      (case decode permitted depth src of
         Inl e \<Rightarrow> False
       | Inr (v, rest) \<Rightarrow> poisoned_elements permitted depth k rest))"

section \<open>Inputs of the examples\<close>

text \<open>
  \<^verbatim>\<open>CipherData\<close> is a parameter of the AARQ encoder. This stand-in runs the encoder on
  examples: it returns the frame of a ciphered APDU (tag, length, security byte, invocation
  counter) around the text as it is, without an authentication tag. It is not the cipher,
  and no property below depends on it.
\<close>

definition frameCipher :: "Cipher \<Rightarrow> byte list \<Rightarrow> error + byte list" where
  "frameCipher cfg data =
     Inr ([Cipher.Tag cfg, of_nat (5 + length data), Cipher.Security cfg]
          @ [ucast (drop_bit 24 (FrameCounter cfg)), ucast (drop_bit 16 (FrameCounter cfg)),
             ucast (drop_bit 8 (FrameCounter cfg)), ucast (FrameCounter cfg)]
          @ data)"

text \<open>
  Encoders that write nothing, to run \<^verbatim>\<open>Encode\<close> on values that reach none of them: a nil
  value, a value of the wrong type, a tag outside the \<^verbatim>\<open>switch\<close>.
\<close>

definition noEncoders :: Encoders where
  "noEncoders = \<lparr>
     EncodeArray = (\<lambda>_. ([], None)), EncodeLength = (\<lambda>_. ([], None)),
     EncodeBoolean = (\<lambda>_. ([], None)), EncodeBitString = (\<lambda>_. ([], None)),
     EncodeDoubleLong = (\<lambda>_. ([], None)), EncodeDoubleLongUnsigned = (\<lambda>_. ([], None)),
     EncodeFloat32 = (\<lambda>_. ([], None)), EncodeOctetString = (\<lambda>_. ([], None)),
     EncodeBCD = (\<lambda>_. ([], None)), EncodeInteger = (\<lambda>_. ([], None)),
     EncodeLong = (\<lambda>_. ([], None)), EncodeUnsigned = (\<lambda>_. ([], None)),
     EncodeLongUnsigned = (\<lambda>_. ([], None)), EncodeLong64 = (\<lambda>_. ([], None)),
     EncodeLong64Unsigned = (\<lambda>_. ([], None)), EncodeEnum = (\<lambda>_. ([], None)),
     EncodeFloat64 = (\<lambda>_. ([], None)), EncodeDateTime = (\<lambda>_. ([], None)),
     EncodeDate = (\<lambda>_. ([], None)), EncodeTime = (\<lambda>_. ([], None)),
     time_Parse = (\<lambda>_ _. (Time 0 0, None))\<rparr>"

text \<open>
  The settings the spec gives for scenario 1: authentication None, no ciphering, no system
  title, maximum PDU size 1024. (The constructor \<^verbatim>\<open>NewSettingsWithoutAuthentication\<close> is
  not among the sources; its test expects an AARQ that ends in 01 00, which is a maximum
  PDU size of 256.)
\<close>

definition scenario1Settings :: Settings where
  "scenario1Settings =
     \<lparr>Authentication = AuthenticationNone, Password = [],
      Ciphering = \<lparr>Ciphering.Security = SecurityNone, SystemTitle = [], UnicastKey = [],
                   AuthenticationKey = [], DedicatedKey = [], InvocationCounter = 0\<rparr>,
      MaxPduSize = 1024\<rparr>"

text \<open>
  The settings of \<^verbatim>\<open>TestEncodeAARQWithLowAuthenticationAndCipher\<close> (scenario 4): Low
  authentication with the password "JuS66BCZ", encryption and authentication, counter
  \<open>0x00000107\<close>, maximum PDU size 512.
\<close>

definition settingsLowAuthenticationAndCipher :: Settings where
  "settingsLowAuthenticationAndCipher =
     \<lparr>Authentication = AuthenticationLow,
      Password = [0x4A, 0x75, 0x53, 0x36, 0x36, 0x42, 0x43, 0x5A],
      Ciphering = \<lparr>
        Ciphering.Security = SecurityEncryption OR SecurityAuthentication,
        SystemTitle = [0x43, 0x49, 0x52, 0x00, 0x00, 0x00, 0x00, 0x01],
        UnicastKey = [0x00, 0x11, 0x22, 0x33, 0x44, 0x55, 0x66, 0x77,
                      0x88, 0x99, 0xAA, 0xBB, 0xCC, 0xDD, 0xEE, 0xFF],
        AuthenticationKey = [0x00, 0x11, 0x22, 0x33, 0x44, 0x55, 0x66, 0x77,
                             0x88, 0x99, 0xAA, 0xBB, 0xCC, 0xDD, 0xEE, 0xFF],
        DedicatedKey = [0xE8, 0x03, 0x73, 0x9D, 0xBE, 0x33, 0x8C, 0x3A,
                        0x79, 0x0D, 0x8D, 0x1B, 0x12, 0xC6, 0x3F, 0xE2],
        InvocationCounter = 0x00000107\<rparr>,
      MaxPduSize = 512\<rparr>"

text \<open>Settings without ciphering that carry a system title.\<close>

definition settingsSystemTitleOnly :: Settings where
  "settingsSystemTitleOnly = scenario1Settings\<lparr>Ciphering :=
      (Ciphering scenario1Settings)
        \<lparr>SystemTitle := [0x43, 0x49, 0x52, 0x00, 0x00, 0x00, 0x00, 0x01]\<rparr>\<rparr>"

text \<open>Low authentication with a password of 300 bytes.\<close>

definition settingsLongPassword :: Settings where
  "settingsLongPassword = scenario1Settings
     \<lparr>Authentication := AuthenticationLow, Password := replicate 300 0x41\<rparr>"

text \<open>A check of dates and times that permits every value.\<close>

definition anyDateTime :: "byte \<Rightarrow> byte list \<Rightarrow> bool" where
  "anyDateTime t p = True"

text \<open>
  The entry descriptor of scenario 5 (from 0 to 5) without its selector, its third element
  replaced by an octet string that claims 32 bytes where 4 remain.
\<close>

definition poisonedEntryParameters :: "byte list" where
  "poisonedEntryParameters =
     [0x02, 0x04, 0x06, 0x00, 0x00, 0x00, 0x00, 0x06, 0x00, 0x00, 0x00, 0x05,
      0x09, 0x20, 0x00, 0x12, 0x00, 0x00]"

section \<open>Properties of the AARQ encoder\<close>

lemmas aarq_consts = AuthenticationNone_def SecurityNone_def AuthenticationLow_def
  SecurityAuthentication_def SecurityEncryption_def
  BERTypeContext_def BERTypeApplication_def BERTypeConstructed_def
  PduTypeApplicationContextName_def PduTypeUserInformation_def
  ApplicationContextLNNoCiphering_def TagInitiateRequest_def
  ApplicationContextLNCiphering_def PduTypeCallingAPTitle_def
  PduTypeSenderAcseRequirements_def PduTypeMechanismName_def
  PduTypeCallingAuthenticationValue_def TagGloInitiateRequest_def

lemmas aarq_defs = EncodeAARQ_def generateApplicationContextName_def
  generateAuthentication_def generateUserInformation_def getInitiateRequest_def

text \<open>The authentication part fails exactly on a missing password.\<close>

lemma generateAuthentication_ok:
  "snd (generateAuthentication s) = None \<longleftrightarrow>
     Authentication s = AuthenticationNone \<or> Password s \<noteq> []"
  by (simp add: generateAuthentication_def)

lemma EncodeAARQ_auth_error:
  assumes "snd (generateAuthentication s) = Some err"
  shows "EncodeAARQ cd s = (Inl err, s)"
  using assms by (cases "generateAuthentication s") (simp add: EncodeAARQ_def)

lemma EncodeAARQ_auth_ok:
  assumes "snd (generateAuthentication s) = None"
  shows "EncodeAARQ cd s =
     (case generateUserInformation cd s of
        (Inl err, s') \<Rightarrow> (Inl err, s')
      | (Inr userInfo, s') \<Rightarrow>
          (let body = generateApplicationContextName s @ fst (generateAuthentication s) @ userInfo
           in (Inr ([0x60, of_nat (length body)] @ body), s')))"
  using assms
  by (cases "generateAuthentication s"; cases "generateUserInformation cd s")
     (simp add: EncodeAARQ_def Let_def BERTypeApplication_def BERTypeConstructed_def
           split: sum.splits)

lemma generateUserInformation_ciphered:
  assumes "Ciphering.Security (Ciphering s) \<noteq> SecurityNone"
  shows "generateUserInformation cd s =
     (case cd (Cipher TagGloInitiateRequest
                 (Ciphering.Security (Ciphering s))
                 (Ciphering.SystemTitle (Ciphering s))
                 (UnicastKey (Ciphering s))
                 (AuthenticationKey (Ciphering s))
                 (InvocationCounter (Ciphering s))) (getInitiateRequest s) of
        Inl err \<Rightarrow> Inl err
      | Inr ciphered \<Rightarrow>
          Inr ([0xBE, of_nat (2 + length ciphered), 0x04, of_nat (length ciphered)] @ ciphered),
      s\<lparr>Ciphering := (Ciphering s)\<lparr>InvocationCounter := InvocationCounter (Ciphering s) + 1\<rparr>\<rparr>)"
  using assms
  by (simp add: generateUserInformation_def Let_def BERTypeContext_def BERTypeConstructed_def
        PduTypeUserInformation_def split: sum.splits)

text \<open>
  A successful AARQ: the tag \<open>0x60\<close>, the length byte, the application context name, and
  the rest.
\<close>

lemma EncodeAARQ_Inr:
  assumes "fst (EncodeAARQ cd s) = Inr out"
  shows "\<exists>rest. out = [0x60, of_nat (length (generateApplicationContextName s @ rest))]
                      @ generateApplicationContextName s @ rest"
proof (cases "snd (generateAuthentication s)")
  case None
  show ?thesis
    using assms
    by (cases "generateUserInformation cd s")
       (auto simp: EncodeAARQ_auth_ok [OF None] Let_def split: sum.splits)
next
  case (Some err)
  with assms show ?thesis by (simp add: EncodeAARQ_auth_error)
qed

text \<open>
  Claim C1, as the code has it. For every settings whose security is not
  \<open>SecurityNone\<close> and whose authentication part is generated without error (authentication
  None, or a password that is not empty), \<open>EncodeAARQ\<close> increments the invocation counter by
  exactly one (modulo \<open>2^32\<close>) and changes nothing else in the settings, whether
  \<open>CipherData\<close> succeeds or not; when \<open>CipherData\<close> succeeds, the user-information field
  carries the ciphered initiate-request (built with the counter before the increment) in
  place of the plain one, and when it fails \<open>EncodeAARQ\<close> returns its error. Encoding the
  AARQ of scenario 4 leaves the counter at \<open>0x00000108\<close>. With an authentication mode and no
  password \<open>EncodeAARQ\<close> returns before the counter is touched.
\<close>

theorem EncodeAARQ_ciphered_increments_counter:
  assumes sec: "Ciphering.Security (Ciphering settings) \<noteq> SecurityNone"
      and auth: "Authentication settings = AuthenticationNone \<or> Password settings \<noteq> []"
  shows "snd (EncodeAARQ CipherData settings) =
           settings\<lparr>Ciphering := (Ciphering settings)
             \<lparr>InvocationCounter := InvocationCounter (Ciphering settings) + 1\<rparr>\<rparr>
       \<and> (case CipherData (Cipher TagGloInitiateRequest
                       (Ciphering.Security (Ciphering settings))
                       (Ciphering.SystemTitle (Ciphering settings))
                       (UnicastKey (Ciphering settings))
                       (AuthenticationKey (Ciphering settings))
                       (InvocationCounter (Ciphering settings))) (getInitiateRequest settings) of
             Inl err \<Rightarrow> fst (EncodeAARQ CipherData settings) = Inl err
           | Inr ciphered \<Rightarrow>
               (let body = generateApplicationContextName settings
                           @ fst (generateAuthentication settings)
                           @ [0xBE, of_nat (2 + length ciphered), 0x04, of_nat (length ciphered)]
                           @ ciphered
                in fst (EncodeAARQ CipherData settings) = Inr ([0x60, of_nat (length body)] @ body)))
       \<and> InvocationCounter (Ciphering (snd (EncodeAARQ CipherData settingsLowAuthenticationAndCipher)))
           = 0x00000108"
proof -
  have ok: "snd (generateAuthentication settings) = None"
    using auth by (simp add: generateAuthentication_ok)
  have ok4: "snd (generateAuthentication settingsLowAuthenticationAndCipher) = None"
    by (simp add: generateAuthentication_ok settingsLowAuthenticationAndCipher_def)
  have sec4: "Ciphering.Security (Ciphering settingsLowAuthenticationAndCipher) \<noteq> SecurityNone"
    by (simp add: settingsLowAuthenticationAndCipher_def aarq_consts)
  have "InvocationCounter (Ciphering (snd (EncodeAARQ CipherData settingsLowAuthenticationAndCipher)))
           = 0x00000108"
    by (simp add: EncodeAARQ_auth_ok [OF ok4] generateUserInformation_ciphered [OF sec4]
          split: sum.splits)
       (simp add: settingsLowAuthenticationAndCipher_def)
  then show ?thesis
    by (simp add: EncodeAARQ_auth_ok [OF ok] generateUserInformation_ciphered [OF sec] Let_def
          split: sum.splits)
qed

text \<open>The theorem at the settings of scenario 4.\<close>

theorem EncodeAARQ_ciphered_increments_counter_witness:
  "Ciphering.Security (Ciphering settingsLowAuthenticationAndCipher) \<noteq> SecurityNone
   \<and> Password settingsLowAuthenticationAndCipher \<noteq> []
   \<and> InvocationCounter (Ciphering settingsLowAuthenticationAndCipher) = 0x00000107
   \<and> InvocationCounter (Ciphering (snd (EncodeAARQ frameCipher settingsLowAuthenticationAndCipher)))
         = 0x00000108
   \<and> snd (EncodeAARQ frameCipher settingsLowAuthenticationAndCipher) =
         settingsLowAuthenticationAndCipher\<lparr>Ciphering :=
           (Ciphering settingsLowAuthenticationAndCipher)\<lparr>InvocationCounter := 0x00000108\<rparr>\<rparr>"
proof -
  have sec: "Ciphering.Security (Ciphering settingsLowAuthenticationAndCipher) \<noteq> SecurityNone"
    by (simp add: settingsLowAuthenticationAndCipher_def aarq_consts)
  have auth: "Authentication settingsLowAuthenticationAndCipher = AuthenticationNone
              \<or> Password settingsLowAuthenticationAndCipher \<noteq> []"
    by (simp add: settingsLowAuthenticationAndCipher_def)
  have cnt: "InvocationCounter (Ciphering settingsLowAuthenticationAndCipher) = 0x00000107"
    by (simp add: settingsLowAuthenticationAndCipher_def)
  from EncodeAARQ_ciphered_increments_counter [OF sec auth, of frameCipher] sec auth cnt
  show ?thesis
    by (simp add: settingsLowAuthenticationAndCipher_def)
qed

text \<open>
  The claim as it is written fails on ciphered settings without a password: \<open>EncodeAARQ\<close>
  returns the error of the authentication part and the counter keeps its value.
\<close>

theorem EncodeAARQ_missing_password_keeps_counter:
  "Ciphering.Security (Ciphering (settingsLowAuthenticationAndCipher\<lparr>Password := []\<rparr>))
     \<noteq> SecurityNone
   \<and> EncodeAARQ frameCipher (settingsLowAuthenticationAndCipher\<lparr>Password := []\<rparr>) =
        (Inl (GoError ''password is required for authentication''),
         settingsLowAuthenticationAndCipher\<lparr>Password := []\<rparr>)
   \<and> InvocationCounter (Ciphering (snd (EncodeAARQ frameCipher
         (settingsLowAuthenticationAndCipher\<lparr>Password := []\<rparr>)))) = 0x00000107"
  by (simp add: EncodeAARQ_def generateAuthentication_def settingsLowAuthenticationAndCipher_def
        aarq_consts)

text \<open>
  Claim C2, as the code has it. For every settings with authentication None, no ciphering,
  no system title and a maximum PDU size of 256, \<open>EncodeAARQ\<close> succeeds, leaves the settings
  as they are and returns exactly the bytes
  60 1D A1 09 06 07 60 85 74 05 08 01 01 BE 10 04 0E 01 00 00 00 06 5F 1F 04 00 00 18 1F 01 00:
  the last two bytes are the maximum PDU size, big-endian.
\<close>

theorem EncodeAARQ_without_authentication:
  assumes "Authentication settings = AuthenticationNone"
      and "Ciphering.Security (Ciphering settings) = SecurityNone"
      and "Ciphering.SystemTitle (Ciphering settings) = []"
      and "MaxPduSize settings = 256"
  shows "EncodeAARQ CipherData settings =
    (Inr [0x60, 0x1D, 0xA1, 0x09, 0x06, 0x07, 0x60, 0x85, 0x74, 0x05, 0x08, 0x01, 0x01,
          0xBE, 0x10, 0x04, 0x0E, 0x01, 0x00, 0x00, 0x00, 0x06, 0x5F, 0x1F, 0x04, 0x00, 0x00,
          0x18, 0x1F, 0x01, 0x00], settings)"
  using assms
  by (simp add: aarq_defs aarq_consts)

theorem EncodeAARQ_without_authentication_witness:
  "EncodeAARQ frameCipher (scenario1Settings\<lparr>MaxPduSize := 256\<rparr>) =
    (Inr [0x60, 0x1D, 0xA1, 0x09, 0x06, 0x07, 0x60, 0x85, 0x74, 0x05, 0x08, 0x01, 0x01,
          0xBE, 0x10, 0x04, 0x0E, 0x01, 0x00, 0x00, 0x00, 0x06, 0x5F, 0x1F, 0x04, 0x00, 0x00,
          0x18, 0x1F, 0x01, 0x00], scenario1Settings\<lparr>MaxPduSize := 256\<rparr>)"
  using EncodeAARQ_without_authentication
          [of "scenario1Settings\<lparr>MaxPduSize := 256\<rparr>" frameCipher]
  by (simp add: scenario1Settings_def)

text \<open>
  With the maximum PDU size 1024 of the claim the AARQ ends in 04 00, not in 01 00.
\<close>

theorem EncodeAARQ_max_pdu_1024:
  "MaxPduSize scenario1Settings = 1024
   \<and> fst (EncodeAARQ frameCipher scenario1Settings) =
     Inr [0x60, 0x1D, 0xA1, 0x09, 0x06, 0x07, 0x60, 0x85, 0x74, 0x05, 0x08, 0x01, 0x01,
          0xBE, 0x10, 0x04, 0x0E, 0x01, 0x00, 0x00, 0x00, 0x06, 0x5F, 0x1F, 0x04, 0x00, 0x00,
          0x18, 0x1F, 0x04, 0x00]
   \<and> fst (EncodeAARQ frameCipher scenario1Settings) \<noteq>
     Inr [0x60, 0x1D, 0xA1, 0x09, 0x06, 0x07, 0x60, 0x85, 0x74, 0x05, 0x08, 0x01, 0x01,
          0xBE, 0x10, 0x04, 0x0E, 0x01, 0x00, 0x00, 0x00, 0x06, 0x5F, 0x1F, 0x04, 0x00, 0x00,
          0x18, 0x1F, 0x01, 0x00]"
  by (simp add: aarq_defs aarq_consts scenario1Settings_def)

text \<open>
  Claim C4, as the code has it. The application-context-name emitted in the AARQ is the
  OID 60 85 74 05 08 01 followed by one last octet, which is 1 exactly when the security is
  \<open>SecurityNone\<close> and no system title is configured, and 3 otherwise: with ciphering, and
  also without ciphering when the settings carry a system title.
\<close>

theorem application_context_name_last_octet:
  "take 11 (generateApplicationContextName settings) =
     [0xA1, 0x09, 0x06, 0x07, 0x60, 0x85, 0x74, 0x05, 0x08, 0x01,
      if Ciphering.Security (Ciphering settings) = SecurityNone
         \<and> Ciphering.SystemTitle (Ciphering settings) = []
      then 1 else 3]
   \<and> (fst (EncodeAARQ CipherData settings) = Inr out \<longrightarrow>
        take 11 (drop 2 out) = take 11 (generateApplicationContextName settings))"
proof -
  have len: "11 \<le> length (generateApplicationContextName settings)"
    by (simp add: generateApplicationContextName_def)
  have "take 11 (drop 2 out) = take 11 (generateApplicationContextName settings)"
    if "fst (EncodeAARQ CipherData settings) = Inr out"
    using EncodeAARQ_Inr [OF that] len by auto
  moreover have "take 11 (generateApplicationContextName settings) =
     [0xA1, 0x09, 0x06, 0x07, 0x60, 0x85, 0x74, 0x05, 0x08, 0x01,
      if Ciphering.Security (Ciphering settings) = SecurityNone
         \<and> Ciphering.SystemTitle (Ciphering settings) = []
      then 1 else 3]"
    by (simp add: generateApplicationContextName_def aarq_consts)
  ultimately show ?thesis by blast
qed

text \<open>
  The theorem at the settings of scenario 4 (ciphering: 3) and at the settings of
  scenario 1 with the maximum PDU size 256 (no ciphering, no system title: 1).
\<close>

theorem application_context_name_last_octet_witness:
  "(\<exists>out. fst (EncodeAARQ frameCipher settingsLowAuthenticationAndCipher) = Inr out
         \<and> take 11 (drop 2 out) = [0xA1, 0x09, 0x06, 0x07, 0x60, 0x85, 0x74, 0x05, 0x08, 0x01, 3])
   \<and> (\<exists>out. fst (EncodeAARQ frameCipher (scenario1Settings\<lparr>MaxPduSize := 256\<rparr>))
              = Inr out
         \<and> take 11 (drop 2 out) = [0xA1, 0x09, 0x06, 0x07, 0x60, 0x85, 0x74, 0x05, 0x08, 0x01, 1])"
proof -
  obtain out where a: "fst (EncodeAARQ frameCipher settingsLowAuthenticationAndCipher) = Inr out"
    by (simp add: aarq_defs aarq_consts settingsLowAuthenticationAndCipher_def frameCipher_def)
  have "take 11 (drop 2 out) = [0xA1, 0x09, 0x06, 0x07, 0x60, 0x85, 0x74, 0x05, 0x08, 0x01, 3]"
    using application_context_name_last_octet
            [of settingsLowAuthenticationAndCipher frameCipher out] a
    by (simp add: settingsLowAuthenticationAndCipher_def aarq_consts)
  with a have first: "\<exists>out. fst (EncodeAARQ frameCipher settingsLowAuthenticationAndCipher) = Inr out
         \<and> take 11 (drop 2 out) = [0xA1, 0x09, 0x06, 0x07, 0x60, 0x85, 0x74, 0x05, 0x08, 0x01, 3]"
    by blast
  obtain out' where b:
    "fst (EncodeAARQ frameCipher (scenario1Settings\<lparr>MaxPduSize := 256\<rparr>)) = Inr out'"
    by (simp add: aarq_defs aarq_consts scenario1Settings_def)
  have "take 11 (drop 2 out') = [0xA1, 0x09, 0x06, 0x07, 0x60, 0x85, 0x74, 0x05, 0x08, 0x01, 1]"
    using application_context_name_last_octet
            [of "scenario1Settings\<lparr>MaxPduSize := 256\<rparr>" frameCipher out'] b
    by (simp add: scenario1Settings_def aarq_consts)
  with b first show ?thesis by blast
qed

text \<open>
  The claim as it is written fails on settings without ciphering that carry a system
  title: the OID ends in 3.
\<close>

theorem system_title_without_ciphering:
  "Ciphering.Security (Ciphering settingsSystemTitleOnly) = SecurityNone
   \<and> fst (EncodeAARQ frameCipher settingsSystemTitleOnly) =
       Inr [0x60, 0x29, 0xA1, 0x09, 0x06, 0x07, 0x60, 0x85, 0x74, 0x05, 0x08, 0x01, 0x03,
            0xA6, 0x0A, 0x04, 0x08, 0x43, 0x49, 0x52, 0x00, 0x00, 0x00, 0x00, 0x01,
            0xBE, 0x10, 0x04, 0x0E, 0x01, 0x00, 0x00, 0x00, 0x06, 0x5F, 0x1F, 0x04, 0x00, 0x00,
            0x18, 0x1F, 0x04, 0x00]"
  by (simp add: aarq_defs aarq_consts scenario1Settings_def
        settingsSystemTitleOnly_def)

text \<open>
  Claim C10. A successful \<open>EncodeAARQ\<close> writes the length of the APDU as the single byte at
  index 1, equal to the length of the output minus 2, modulo 256: the byte is exact when
  the body has at most 255 bytes, and it is not the length of a longer body.
\<close>

theorem EncodeAARQ_length_byte:
  assumes "fst (EncodeAARQ CipherData settings) = Inr out"
  shows "2 \<le> length out
       \<and> out ! 1 = of_nat (length out - 2)
       \<and> unat (out ! 1) = (length out - 2) mod 256
       \<and> (length out - 2 \<le> 255 \<longrightarrow> unat (out ! 1) = length out - 2)
       \<and> (255 < length out - 2 \<longrightarrow> unat (out ! 1) \<noteq> length out - 2)"
proof -
  from EncodeAARQ_Inr [OF assms] obtain rest where
    out: "out = [0x60, of_nat (length (generateApplicationContextName settings @ rest))]
                @ generateApplicationContextName settings @ rest"
    by blast
  then have len: "2 \<le> length out" and byte: "out ! 1 = of_nat (length out - 2)"
    by simp_all
  have "unat (of_nat (length out - 2) :: byte) = (length out - 2) mod 256"
    by (simp add: unat_of_nat)
  then have m: "unat (out ! 1) = (length out - 2) mod 256"
    by (simp only: byte)
  from m have "255 < length out - 2 \<Longrightarrow> unat (out ! 1) \<noteq> length out - 2"
    by simp
  with len byte m show ?thesis by simp
qed

lemma settingsLongPassword_out:
  "fst (EncodeAARQ frameCipher settingsLongPassword) =
     Inr ([0x60, 0x5A, 0xA1, 0x09, 0x06, 0x07, 0x60, 0x85, 0x74, 0x05, 0x08, 0x01, 0x01,
           0x8A, 0x02, 0x07, 0x80, 0x8B, 0x07, 0x60, 0x85, 0x74, 0x05, 0x08, 0x02, 0x01,
           0xAC, 0x2E, 0x80, 0x2C] @ replicate 300 0x41 @
          [0xBE, 0x10, 0x04, 0x0E, 0x01, 0x00, 0x00, 0x00, 0x06, 0x5F, 0x1F, 0x04, 0x00, 0x00,
           0x18, 0x1F, 0x04, 0x00])"
  by (simp add: aarq_defs aarq_consts scenario1Settings_def settingsLongPassword_def)

text \<open>
  The theorem at a body of 29 bytes (length byte 29) and at a body of 346 bytes, made by a
  password of 300 bytes (length byte 90).
\<close>

theorem EncodeAARQ_length_byte_witness:
  "(\<exists>out. fst (EncodeAARQ frameCipher (scenario1Settings\<lparr>MaxPduSize := 256\<rparr>))
            = Inr out
       \<and> length out - 2 = 29 \<and> unat (out ! 1) = 29)
   \<and> (\<exists>out. fst (EncodeAARQ frameCipher settingsLongPassword) = Inr out
       \<and> length out - 2 = 346 \<and> unat (out ! 1) = 90)"
proof -
  let ?short = "[0x60, 0x1D, 0xA1, 0x09, 0x06, 0x07, 0x60, 0x85, 0x74, 0x05, 0x08, 0x01, 0x01,
          0xBE, 0x10, 0x04, 0x0E, 0x01, 0x00, 0x00, 0x00, 0x06, 0x5F, 0x1F, 0x04, 0x00, 0x00,
          0x18, 0x1F, 0x01, 0x00] :: byte list"
  have s: "fst (EncodeAARQ frameCipher (scenario1Settings\<lparr>MaxPduSize := 256\<rparr>))
             = Inr ?short"
    by (simp add: aarq_defs aarq_consts scenario1Settings_def)
  have "length ?short - 2 = 29 \<and> unat (?short ! 1) = 29"
    using EncodeAARQ_length_byte [OF s] by simp
  moreover
  let ?long = "[0x60, 0x5A, 0xA1, 0x09, 0x06, 0x07, 0x60, 0x85, 0x74, 0x05, 0x08, 0x01, 0x01,
           0x8A, 0x02, 0x07, 0x80, 0x8B, 0x07, 0x60, 0x85, 0x74, 0x05, 0x08, 0x02, 0x01,
           0xAC, 0x2E, 0x80, 0x2C] @ replicate 300 0x41 @
          [0xBE, 0x10, 0x04, 0x0E, 0x01, 0x00, 0x00, 0x00, 0x06, 0x5F, 0x1F, 0x04, 0x00, 0x00,
           0x18, 0x1F, 0x04, 0x00] :: byte list"
  have "length ?long - 2 = 346 \<and> unat (?long ! 1) = 90"
    using EncodeAARQ_length_byte [OF settingsLongPassword_out] by simp
  ultimately show ?thesis
    using s settingsLongPassword_out by blast
qed

section \<open>Properties of the attribute descriptor\<close>

text \<open>
  Claim C5. For every attribute descriptor \<open>Encode\<close> succeeds and returns exactly 9 bytes:
  the class id in two bytes, big-endian, the six bytes of the OBIS code, and the attribute
  id in one byte. On every buffer shorter than 9 bytes \<open>DecodeAttributeDescriptor\<close> returns
  an error and leaves the caller's buffer as it is.
\<close>

theorem AttributeDescriptor_fixed_width:
  "(\<exists>out. AttributeDescriptor_Encode ad = Inr out
        \<and> length out = 9
        \<and> out = [ucast (drop_bit 8 (ClassID ad)), ucast (ClassID ad)]
                 @ Bytes (InstanceID ad) @ [AttributeID ad]
        \<and> length (Bytes (InstanceID ad)) = 6
        \<and> push_bit 8 (ucast (out ! 0)) OR ucast (out ! 1) = ClassID ad)
   \<and> (length buf < 9 \<longrightarrow>
        (\<exists>err. DecodeAttributeDescriptor buf = Return (Inl err, buf)))"
proof -
  have six: "length (Bytes (InstanceID ad)) = 6"
    by (cases "InstanceID ad") simp
  have be: "push_bit 8 (ucast (ucast (drop_bit 8 w) :: byte)) OR ucast (ucast w :: byte) = w"
    for w :: "16 word"
    by (rule bit_word_eqI) (auto simp add: bit_simps)
  show ?thesis
    using six be [of "ClassID ad"]
    by (simp add: AttributeDescriptor_Encode_def DecodeAttributeDescriptor_def)
qed

text \<open>
  The theorem at the descriptor of the clock's time attribute (class 8, 0.0.1.0.0.255,
  attribute 2) and at the first 8 bytes of its encoding.
\<close>

theorem AttributeDescriptor_fixed_width_witness:
  "AttributeDescriptor_Encode \<lparr>ClassID = 8, InstanceID = Obis 0 0 1 0 0 255, AttributeID = 2\<rparr>
     = Inr [0x00, 0x08, 0x00, 0x00, 0x01, 0x00, 0x00, 0xFF, 0x02]
   \<and> length [0x00, 0x08, 0x00, 0x00, 0x01, 0x00, 0x00, 0xFF :: byte] < 9
   \<and> (\<exists>err. DecodeAttributeDescriptor [0x00, 0x08, 0x00, 0x00, 0x01, 0x00, 0x00, 0xFF]
          = Return (Inl err, [0x00, 0x08, 0x00, 0x00, 0x01, 0x00, 0x00, 0xFF]))"
  using AttributeDescriptor_fixed_width
          [of "\<lparr>ClassID = 8, InstanceID = Obis 0 0 1 0 0 255, AttributeID = 2\<rparr>"
              "[0x00, 0x08, 0x00, 0x00, 0x01, 0x00, 0x00, 0xFF]"]
  by (simp add: AttributeDescriptor_Encode_def)

section \<open>Properties of the A-XDR encoder\<close>

lemmas tag_defs = TagNull_def TagArray_def TagStructure_def TagBoolean_def TagBitString_def
  TagDoubleLong_def TagDoubleLongUnsigned_def TagFloatingPoint_def TagOctetString_def
  TagVisibleString_def TagUTF8String_def TagBCD_def TagInteger_def TagLong_def TagUnsigned_def
  TagLongUnsigned_def TagCompactArray_def TagLong64_def TagLong64Unsigned_def TagEnum_def
  TagFloat32_def TagFloat64_def TagDateTime_def TagDate_def TagTime_def TagDontCare_def

text \<open>
  Claim C9. For every \<open>DlmsData\<close> whose value is nil, whatever its tag and its buffers,
  \<open>Encode\<close> panics with "Value to encode cannot be nil": it never returns.
\<close>

theorem Encode_nil_value_panics:
  "Encode enc (DlmsData t VNil rv r) = Panic (PanicString ''Value to encode cannot be nil'')
   \<and> (Value d = VNil \<longrightarrow>
        Encode enc d = Panic (PanicString ''Value to encode cannot be nil'')
        \<and> (\<forall>res. Encode enc d \<noteq> Return res))"
  by (simp add: Encode_def)

text \<open>The theorem at the tags \<open>TagNull\<close>, \<open>TagDontCare\<close> and \<open>TagLongUnsigned\<close>.\<close>

theorem Encode_nil_value_panics_witness:
  "Encode noEncoders (DlmsData TagNull VNil [] [])
     = Panic (PanicString ''Value to encode cannot be nil'')
   \<and> Encode noEncoders (DlmsData TagDontCare VNil [] [])
     = Panic (PanicString ''Value to encode cannot be nil'')
   \<and> Encode noEncoders (DlmsData TagLongUnsigned VNil [] [])
     = Panic (PanicString ''Value to encode cannot be nil'')"
  using Encode_nil_value_panics
          [of noEncoders TagNull "[]" "[]" "DlmsData TagNull VNil [] []"]
        Encode_nil_value_panics
          [of noEncoders TagDontCare "[]" "[]" "DlmsData TagDontCare VNil [] []"]
        Encode_nil_value_panics
          [of noEncoders TagLongUnsigned "[]" "[]" "DlmsData TagLongUnsigned VNil [] []"]
  by simp

text \<open>
  Where the case of a tag asserts a type, a value of another type panics with
  \<^verbatim>\<open>errDataType\<close> before any encoder runs.
\<close>

lemma Encode_asserts_type:
  assumes ts: "assertedTypes (DlmsData.Tag d) = Some ts"
      and ty: "typeOf (Value d) \<notin> set ts"
      and nn: "Value d \<noteq> VNil"
  shows "Encode enc d = Panic (errDataType d)"
proof -
  let ?t = "DlmsData.Tag d"
  from ts consider
      (seq) "?t = TagArray \<or> ?t = TagStructure" "ts = [SliceType]"
    | (bool) "?t = TagBoolean" "ts = [BoolType]"
    | (str) "?t = TagBitString \<or> ?t = TagOctetString \<or> ?t = TagVisibleString
             \<or> ?t = TagUTF8String" "ts = [StringType]"
    | (dl) "?t = TagDoubleLong" "ts = [IntType]"
    | (dlu) "?t = TagDoubleLongUnsigned" "ts = [Uint32Type]"
    | (f32) "?t = TagFloatingPoint \<or> ?t = TagFloat32" "ts = [Float32Type]"
    | (i8) "?t = TagBCD \<or> ?t = TagInteger" "ts = [Int8Type]"
    | (i16) "?t = TagLong" "ts = [Int16Type]"
    | (u8) "?t = TagUnsigned \<or> ?t = TagEnum" "ts = [Uint8Type]"
    | (u16) "?t = TagLongUnsigned" "ts = [Uint16Type]"
    | (i64) "?t = TagLong64" "ts = [Int64Type]"
    | (u64) "?t = TagLong64Unsigned" "ts = [Uint64Type]"
    | (f64) "?t = TagFloat64" "ts = [Float64Type]"
    | (tm) "?t = TagDateTime \<or> ?t = TagDate \<or> ?t = TagTime" "ts = [TimeType, StringType]"
    unfolding assertedTypes_def by (auto split: if_splits)
  then show ?thesis
  proof cases
    case seq
    with ty nn show ?thesis
      by (cases "Value d") (auto simp add: Encode_def tag_defs encodeSequence_def)
  next
    case bool
    with ty nn show ?thesis
      by (cases "Value d") (simp_all add: Encode_def tag_defs)
  next
    case str
    with ty nn show ?thesis
      by (cases "Value d") (auto simp add: Encode_def tag_defs encodeString_def)
  next
    case dl
    with ty nn show ?thesis
      by (cases "Value d") (simp_all add: Encode_def tag_defs)
  next
    case dlu
    with ty nn show ?thesis
      by (cases "Value d") (simp_all add: Encode_def tag_defs)
  next
    case f32
    with ty nn show ?thesis
      by (cases "Value d") (auto simp add: Encode_def tag_defs)
  next
    case i8
    with ty nn show ?thesis
      by (cases "Value d") (auto simp add: Encode_def tag_defs)
  next
    case i16
    with ty nn show ?thesis
      by (cases "Value d") (simp_all add: Encode_def tag_defs)
  next
    case u8
    with ty nn show ?thesis
      by (cases "Value d") (auto simp add: Encode_def tag_defs)
  next
    case u16
    with ty nn show ?thesis
      by (cases "Value d") (simp_all add: Encode_def tag_defs)
  next
    case i64
    with ty nn show ?thesis
      by (cases "Value d") (simp_all add: Encode_def tag_defs)
  next
    case u64
    with ty nn show ?thesis
      by (cases "Value d") (simp_all add: Encode_def tag_defs)
  next
    case f64
    with ty nn show ?thesis
      by (cases "Value d") (simp_all add: Encode_def tag_defs)
  next
    case tm
    with ty nn show ?thesis
      by (cases "Value d") (auto simp add: Encode_def tag_defs encodeTimeValue_def)
  qed
qed

text \<open>
  Claim C6, where the code departs from it. The \<^verbatim>\<open>switch\<close> of \<open>Encode\<close> has no default
  case: for a tag that is none of its cases no type matches, and yet \<open>Encode\<close> checks
  nothing and returns bytes, the tag as one byte followed by whatever \<^verbatim>\<open>rawValue\<close> held.
  (For the tags whose case asserts a type the claim holds, by the lemma above;
  \<^verbatim>\<open>TagCompactArray\<close> always panics; \<^verbatim>\<open>TagNull\<close> and \<^verbatim>\<open>TagDontCare\<close> have no payload and
  ignore the value.)
\<close>

theorem Encode_tag_outside_switch:
  assumes "DlmsData.Tag d \<notin> switchTags" and "Value d \<noteq> VNil"
  shows "Encode enc d =
     Return ([word_of_int (DlmsData.Tag d)] @ rawValue d,
             DlmsData (DlmsData.Tag d) (Value d) (rawValue d)
               ([word_of_int (DlmsData.Tag d)] @ rawValue d))
   \<and> assertedTypes (DlmsData.Tag d) = None"
  using assms
  by (simp add: Encode_def switchTags_def writeRaw_def Let_def assertedTypes_def)

text \<open>The theorem at the tag 8 with a boolean value: \<open>Encode\<close> returns the byte 08.\<close>

theorem Encode_tag_outside_switch_witness:
  "8 \<notin> switchTags \<and> VBool True \<noteq> VNil
   \<and> Encode noEncoders (DlmsData 8 (VBool True) [] []) =
       Return ([0x08], DlmsData 8 (VBool True) [] [0x08])"
  using Encode_tag_outside_switch [of "DlmsData 8 (VBool True) [] []" noEncoders]
  by (simp add: switchTags_def tag_defs)

section \<open>Properties of the bulk Set\<close>

text \<open>
  The invariant of the loop: an error of kind SetPartial that none of the calls made for
  the fields returned comes from the loop, which makes it only after a set has succeeded
  and a set has failed.
\<close>

lemma setFields_partial:
  assumes "setFields c fs errSet isDone isFailed = Some err"
      and "Code err = Some ErrorSetPartial"
      and "\<forall>e. errSet = Some e \<longrightarrow> Code e \<noteq> Some ErrorSetPartial"
      and "\<forall>e. DescriptorError e \<in> set fs \<or> SetField (Some e) \<in> set fs
             \<longrightarrow> Code e \<noteq> Some ErrorSetPartial"
  shows "(isDone \<or> SetField None \<in> set fs) \<and> (isFailed \<or> (\<exists>e. SetField (Some e) \<in> set fs))"
  using assms
proof (induction c fs errSet isDone isFailed rule: setFields.induct)
  case (1 c errSet isDone isFailed)
  then show ?case by (auto split: if_splits)
next
  case (2 c err' fs errSet isDone isFailed)
  then show ?case by auto
next
  case (3 c fs errSet isDone isFailed)
  then show ?case by auto
next
  case (4 c fs errSet isDone isFailed)
  then show ?case by auto
next
  case (5 c err' fs errSet isDone isFailed)
  show ?case
  proof (cases "Code err' = Some ErrorSetRejected \<and> c")
    case True
    with 5 show ?thesis by auto
  next
    case False
    with 5 show ?thesis by (auto split: if_splits)
  qed
next
  case (6 c fs errSet isDone isFailed)
  then show ?case by auto
qed

text \<open>Fields that are skipped or set leave the loop running; a set field is remembered.\<close>

lemma setFields_skip:
  assumes "\<forall>f \<in> set pre. f = SetField None \<or> f = NoDescriptor \<or> f = NilPointer"
  shows "setFields c (pre @ rest) errSet isDone isFailed =
         setFields c rest errSet (isDone \<or> SetField None \<in> set pre) isFailed"
  using assms
proof (induction pre arbitrary: isDone)
  case Nil
  then show ?case by simp
next
  case (Cons f pre)
  then show ?case by (cases f) auto
qed

text \<open>
  Claim C3, as the code has it. \<open>SetRequestWithStructOfElements\<close> surfaces an error of kind
  SetPartial (one that no call made for a field returned) only when the set of one
  element has succeeded and the set of another has failed, whatever
  \<open>continueOnSetRejected\<close> is. The opt-in is not needed for it: with
  \<open>continueOnSetRejected\<close> disabled, the first set that fails returns SetPartial when an
  earlier element has been set, and returns the error of the set as it is otherwise.
\<close>

theorem SetPartial_needs_success_and_failure:
  "(SetRequestWithStructOfElements (Struct fs) continueOnSetRejected = Some err
      \<and> Code err = Some ErrorSetPartial
      \<and> (\<forall>e. DescriptorError e \<in> set fs \<or> SetField (Some e) \<in> set fs
               \<longrightarrow> Code e \<noteq> Some ErrorSetPartial)
    \<longrightarrow> SetField None \<in> set fs \<and> (\<exists>e. SetField (Some e) \<in> set fs))
   \<and> ((\<forall>f \<in> set pre. f = SetField None \<or> f = NoDescriptor \<or> f = NilPointer) \<longrightarrow>
        SetRequestWithStructOfElements (Struct (pre @ SetField (Some e') # post)) False =
          Some (if SetField None \<in> set pre
                then NewError ErrorSetPartial (''partial set: '' @ Error_string e')
                else e'))"
proof -
  have "SetField None \<in> set fs \<and> (\<exists>e. SetField (Some e) \<in> set fs)"
    if "SetRequestWithStructOfElements (Struct fs) continueOnSetRejected = Some err"
      and "Code err = Some ErrorSetPartial"
      and "\<forall>e. DescriptorError e \<in> set fs \<or> SetField (Some e) \<in> set fs
               \<longrightarrow> Code e \<noteq> Some ErrorSetPartial"
    using setFields_partial [of continueOnSetRejected fs None False False err] that
    by (simp add: SetRequestWithStructOfElements_def)
  moreover have
    "SetRequestWithStructOfElements (Struct (pre @ SetField (Some e') # post)) False =
          Some (if SetField None \<in> set pre
                then NewError ErrorSetPartial (''partial set: '' @ Error_string e')
                else e')"
    if "\<forall>f \<in> set pre. f = SetField None \<or> f = NoDescriptor \<or> f = NilPointer"
    using setFields_skip [OF that]
    by (simp add: SetRequestWithStructOfElements_def)
  ultimately show ?thesis by blast
qed

text \<open>
  The theorem at a struct of two elements, the first set and the second rejected: with
  the opt-in the loop ends and returns SetPartial, without it the rejection returns
  SetPartial at once.
\<close>

theorem SetPartial_needs_success_and_failure_witness:
  "SetRequestWithStructOfElements
     (Struct [SetField None, SetField (Some (DlmsError ErrorSetRejected ''set rejected''))]) True
     = Some (DlmsError ErrorSetPartial ''partial set: set rejected'')
   \<and> SetField None \<in> set [SetField None, SetField (Some (DlmsError ErrorSetRejected ''set rejected''))]
   \<and> (\<exists>e. SetField (Some e)
          \<in> set [SetField None, SetField (Some (DlmsError ErrorSetRejected ''set rejected''))])
   \<and> SetRequestWithStructOfElements
       (Struct ([SetField None] @ SetField (Some (DlmsError ErrorSetRejected ''set rejected'')) # []))
       False
     = Some (DlmsError ErrorSetPartial ''partial set: set rejected'')"
  using SetPartial_needs_success_and_failure
          [of "[SetField None, SetField (Some (DlmsError ErrorSetRejected ''set rejected''))]"
              True "DlmsError ErrorSetPartial ''partial set: set rejected''"
              "[SetField None]" "DlmsError ErrorSetRejected ''set rejected''" "[]"]
  by (simp add: SetRequestWithStructOfElements_def)

text \<open>
  The claim as it is written fails with the opt-in disabled: after one element is set, a
  rejected set returns an error of kind SetPartial.
\<close>

theorem SetPartial_without_opt_in:
  "SetRequestWithStructOfElements
     (Struct [SetField None, SetField (Some (DlmsError ErrorSetRejected ''set rejected''))]) False
   = Some (DlmsError ErrorSetPartial ''partial set: set rejected'')
   \<and> Code (DlmsError ErrorSetPartial ''partial set: set rejected'') = Some ErrorSetPartial"
  by (simp add: SetRequestWithStructOfElements_def)

section \<open>Properties of the selective access descriptor\<close>

text \<open>A poisoned length at the front of a buffer makes the decoder fail.\<close>

lemma poisoned_length_fails:
  assumes "poisoned_length src"
  shows "\<exists>e. decode permitted depth src = Inl e"
  using assms
  by (cases src)
     (auto simp: poisoned_length_def split: sum.splits prod.splits if_splits nat.splits)

text \<open>So does a poisoned inner length: the failure of an element is the failure of the
  sequence.\<close>

lemma poisoned_fails:
  "poisoned permitted depth src \<longrightarrow> (\<exists>e. decode permitted depth src = Inl e)"
  "poisoned_elements permitted depth k src
     \<longrightarrow> (\<exists>e. decode_elements permitted depth k src = Inl e)"
proof (induction permitted depth src and permitted depth k src
       rule: decode_decode_elements.induct)
  case (1 permitted depth)
  then show ?case by simp
next
  case (2 permitted depth t src)
  show ?case
  proof
    assume p: "poisoned permitted depth (t # src)"
    show "\<exists>e. decode permitted depth (t # src) = Inl e"
    proof (cases "poisoned_length (t # src)")
      case True
      then show ?thesis by (rule poisoned_length_fails)
    next
      case False
      with p have t: "t = 1 \<or> t = 2" by simp
      from False p obtain n body where l: "decode_length src = Inr (n, body)"
        by (cases "decode_length src") auto
      from False p l obtain d where d: "depth = Suc d"
        by (cases depth) auto
      from False p l d have pe: "poisoned_elements permitted d n body"
        by simp
      show ?thesis
      proof (cases "length body < n")
        case True
        with t l show ?thesis by auto
      next
        case nl: False
        from 2 [OF t l refl nl d] pe
        obtain e where "decode_elements permitted d n body = Inl e"
          by blast
        with t l d nl show ?thesis by auto
      qed
    qed
  qed
next
  case (3 permitted depth src)
  then show ?case by simp
next
  case (4 permitted depth k src)
  show ?case
  proof
    assume p: "poisoned_elements permitted depth (Suc k) src"
    show "\<exists>e. decode_elements permitted depth (Suc k) src = Inl e"
    proof (cases "decode permitted depth src")
      case (Inl e)
      then show ?thesis by simp
    next
      case (Inr a)
      obtain v rest where a: "a = (v, rest)" by (cases a)
      from p Inr a 4(1) have "poisoned_elements permitted depth k rest"
        by auto
      with 4(2) [OF Inr a [symmetric]]
      obtain e where "decode_elements permitted depth k rest = Inl e"
        by blast
      with Inr a show ?thesis by simp
    qed
  qed
qed

text \<open>
  Claim C7, on the decoder of the spec. Whatever the decoder of the access parameters is,
  when \<open>DecodeSelectiveAccessDescriptor\<close> returns an error the caller's buffer is the one
  it was given. With the decoder of the spec, a buffer whose access parameters have a
  poisoned inner length (a length field, at any depth, that claims more than the buffer
  holds) is refused with an error, and the caller's buffer keeps its position and length.
  (The buffer of the repository's test does not poison a length: it replaces the tag 18
  of the third element by 255, a tag to which the spec gives no payload, and expects an
  error. The decoder of the spec accepts that buffer, so the decoder of the package
  refuses something the spec does not tell; the first part of the theorem covers it:
  whatever the decoder refuses, the buffer is left as it was.)
\<close>

theorem DecodeSelectiveAccessDescriptor_poisoned_length:
  "(fst (DecodeSelectiveAccessDescriptor Decode buf) = Inl e \<longrightarrow>
      DecodeSelectiveAccessDescriptor Decode buf = (Inl e, buf))
   \<and> (poisoned permitted 16 src \<longrightarrow>
      (\<exists>e. DecodeSelectiveAccessDescriptor (decode permitted 16) (selector # src)
             = (Inl e, selector # src)))"
proof -
  have a: "DecodeSelectiveAccessDescriptor Decode buf = (Inl e, buf)"
    if "fst (DecodeSelectiveAccessDescriptor Decode buf) = Inl e"
    using that
    by (auto simp: DecodeSelectiveAccessDescriptor_def split: list.splits if_splits sum.splits)
  have b: "\<exists>e. DecodeSelectiveAccessDescriptor (decode permitted 16) (selector # src)
             = (Inl e, selector # src)"
    if "poisoned permitted 16 src"
    using poisoned_fails(1) [of permitted 16 src] that
    by (auto simp: DecodeSelectiveAccessDescriptor_def)
  from a b show ?thesis by blast
qed

text \<open>
  The theorem at the entry descriptor whose third element claims 32 bytes: the decoder
  answers LengthOverflow and the 19 bytes of the buffer are left as they were.
\<close>

theorem DecodeSelectiveAccessDescriptor_poisoned_length_witness:
  "poisoned anyDateTime 16 poisonedEntryParameters
   \<and> DecodeSelectiveAccessDescriptor (decode anyDateTime 16) (0x02 # poisonedEntryParameters)
       = (Inl LengthOverflow, 0x02 # poisonedEntryParameters)
   \<and> length (snd (DecodeSelectiveAccessDescriptor (decode anyDateTime 16)
                     (0x02 # poisonedEntryParameters))) = 19"
proof -
  have p: "poisoned anyDateTime 16 poisonedEntryParameters"
    by code_simp
  have f: "fst (DecodeSelectiveAccessDescriptor (decode anyDateTime 16)
                  (0x02 # poisonedEntryParameters)) = Inl LengthOverflow"
    by code_simp
  have l: "length (0x02 # poisonedEntryParameters) = 19"
    by (simp add: poisonedEntryParameters_def)
  from DecodeSelectiveAccessDescriptor_poisoned_length
         [of "decode anyDateTime 16" "0x02 # poisonedEntryParameters" LengthOverflow
             anyDateTime poisonedEntryParameters "0x02"] p f l
  show ?thesis by simp
qed

end
